theory Spec2Isabelle
  imports Main "HOL-Library.Char_ord" "HOL-Library.List_Lexorder" "HOL-Library.Multiset"
begin

section \<open>Decoded YAML documents\<close>

text \<open>
  \<^verbatim>\<open>scripts/validate_lite_configs.py\<close> works on the values that \<^verbatim>\<open>yaml.safe_load\<close>
  returns. A key of a decoded mapping is hashable, so it is a scalar; a value is a
  scalar, a list or a mapping. Python strings are lists of code points; a \<^typ>\<open>char\<close>
  stands for a code point below 256, ordered by its code. Integers are unbounded; the
  conversion of an integer to text is refused above 4300 digits, as CPython does by
  default.
  Floats, timestamps and binary scalars are outside this model, and so are documents
  whose anchors make a value contain itself.

  A decoded mapping is an association list in insertion order; a Python dict holds
  every key once.
\<close>

datatype scalar = PyNone | PyBool bool | PyInt int | PyStr string

datatype yaml = Scalar scalar | PyList "yaml list" | PyDict "(scalar \<times> yaml) list"

type_synonym dict = "(scalar \<times> yaml) list"

text \<open>
  Every exception that the script raises itself is a \<^verbatim>\<open>RuntimeError\<close> with its message.
  Two more come from the calls it makes: the \<^verbatim>\<open>TypeError\<close> of \<^verbatim>\<open>sorted\<close> when two keys
  cannot be ordered, and the \<^verbatim>\<open>ValueError\<close> of \<^verbatim>\<open>str\<close> on an integer of too many digits.
\<close>

datatype error = RuntimeError string | TypeError string | ValueError string

fun exc_str :: "error \<Rightarrow> string" where
  "exc_str (RuntimeError m) = m"
| "exc_str (TypeError m) = m"
| "exc_str (ValueError m) = m"

section \<open>Python string operations\<close>

text \<open>\<^verbatim>\<open>s.split(c)\<close> for a one-character separator: the fields between the separators.\<close>

fun py_split :: "char \<Rightarrow> string \<Rightarrow> string list" where
  "py_split c [] = [[]]"
| "py_split c (x # xs) =
     (if x = c then [] # py_split c xs
      else (case py_split c xs of
              [] \<Rightarrow> [[x]]
            | f # fs \<Rightarrow> (x # f) # fs))"

text \<open>\<^verbatim>\<open>sep.join(xs)\<close>.\<close>

fun py_join :: "string \<Rightarrow> string list \<Rightarrow> string" where
  "py_join sep [] = []"
| "py_join sep [x] = x"
| "py_join sep (x # y # ys) = x @ sep @ py_join sep (y # ys)"

text \<open>\<^verbatim>\<open>s.rfind(c)\<close>: the index of the last \<open>c\<close> in \<open>s\<close>, or \<open>-1\<close>.\<close>

definition rfind :: "char \<Rightarrow> string \<Rightarrow> int" where
  "rfind c s = int (length (dropWhile (\<lambda>x. x \<noteq> c) (rev s))) - 1"

text \<open>
  \<^verbatim>\<open>str(n)\<close> for an integer: decimal digits, with a minus sign before a negative one.
  This is the text that the call returns when it returns. With the default setting of
  \<^verbatim>\<open>sys.set_int_max_str_digits\<close> the call raises \<^verbatim>\<open>ValueError\<close> instead when the
  integer has more than 4300 digits, the sign not counted.
\<close>

fun dec_digits :: "nat \<Rightarrow> string" where
  "dec_digits n =
     (if n < 10 then [''0123456789'' ! n]
      else dec_digits (n div 10) @ [''0123456789'' ! (n mod 10)])"

declare dec_digits.simps [simp del]

definition str_int :: "int \<Rightarrow> string" where
  "str_int i = (if i < 0 then CHR ''-'' # dec_digits (nat (- i)) else dec_digits (nat i))"

definition max_str_digits :: nat where
  "max_str_digits = 4300"

definition int_str_raises :: "int \<Rightarrow> bool" where
  "int_str_raises i = (max_str_digits < length (dec_digits (nat \<bar>i\<bar>)))"

definition digits_limit_text :: string where
  "digits_limit_text = ''Exceeds the limit (4300 digits) for integer string conversion; use sys.set_int_max_str_digits() to increase the limit''"

text \<open>
  \<^verbatim>\<open>repr(s)\<close> for a string: single quotes, unless the string has a single quote and no
  double quote; the quote and the backslash are escaped, tab, line feed and carriage
  return are written \<^verbatim>\<open>\t \n \r\<close>, and every other code point that is not printable
  (below 32, 127 to 160, and 173) is written \<^verbatim>\<open>\xhh\<close>.
\<close>

definition hex2 :: "nat \<Rightarrow> string" where
  "hex2 n = [''0123456789abcdef'' ! (n div 16), ''0123456789abcdef'' ! (n mod 16)]"

definition repr_char :: "char \<Rightarrow> char \<Rightarrow> string" where
  "repr_char q c =
     (let n = (of_char c :: nat) in
      if c = q \<or> c = CHR 0x5C then [CHR 0x5C, c]
      else if c = CHR 0x09 then [CHR 0x5C, CHR ''t'']
      else if c = CHR 0x0A then [CHR 0x5C, CHR ''n'']
      else if c = CHR 0x0D then [CHR 0x5C, CHR ''r'']
      else if n < 32 \<or> (127 \<le> n \<and> n \<le> 160) \<or> n = 173
        then CHR 0x5C # CHR ''x'' # hex2 n
      else [c])"

definition repr_str :: "string \<Rightarrow> string" where
  "repr_str s =
     (let q = (if CHR 0x27 \<in> set s \<and> CHR 0x22 \<notin> set s then CHR 0x22 else CHR 0x27)
      in q # concat (map (repr_char q) s) @ [q])"

fun repr_scalar :: "scalar \<Rightarrow> string" where
  "repr_scalar PyNone = ''None''"
| "repr_scalar (PyBool b) = (if b then ''True'' else ''False'')"
| "repr_scalar (PyInt i) = str_int i"
| "repr_scalar (PyStr s) = repr_str s"

text \<open>\<^verbatim>\<open>repr(v)\<close> of a decoded value: a list and a dict show the \<^verbatim>\<open>repr\<close> of their items.\<close>

fun py_repr :: "yaml \<Rightarrow> string" where
  "py_repr (Scalar k) = repr_scalar k"
| "py_repr (PyList vs) = ''['' @ py_join '', '' (map py_repr vs) @ '']''"
| "py_repr (PyDict d) =
     ''{'' @ py_join '', '' (map (\<lambda>kv. repr_scalar (fst kv) @ '': '' @ py_repr (snd kv)) d) @ ''}''"

text \<open>\<^verbatim>\<open>str(v)\<close>: a string is itself, every other value is its \<^verbatim>\<open>repr\<close>.\<close>

fun str_scalar :: "scalar \<Rightarrow> string" where
  "str_scalar (PyStr s) = s"
| "str_scalar k = repr_scalar k"

fun py_str :: "yaml \<Rightarrow> string" where
  "py_str (Scalar k) = str_scalar k"
| "py_str v = py_repr v"

text \<open>
  \<^verbatim>\<open>str(v)\<close> and \<^verbatim>\<open>repr(v)\<close> raise \<^verbatim>\<open>ValueError\<close> when \<open>v\<close> is, or a list or dict \<open>v\<close>
  holds, an integer of too many digits. \<open>py_str\<close> and \<open>py_repr\<close> give the text of the
  calls that return.
\<close>

fun scalar_str_raises :: "scalar \<Rightarrow> bool" where
  "scalar_str_raises (PyInt i) = int_str_raises i"
| "scalar_str_raises k = False"

fun str_raises :: "yaml \<Rightarrow> bool" where
  "str_raises (Scalar k) = scalar_str_raises k"
| "str_raises (PyList vs) = list_ex str_raises vs"
| "str_raises (PyDict d) =
     list_ex (\<lambda>kv. scalar_str_raises (fst kv) \<or> str_raises (snd kv)) d"

text \<open>\<^verbatim>\<open>type(v)\<close> as an f-string shows it.\<close>

fun type_name :: "yaml \<Rightarrow> string" where
  "type_name (Scalar PyNone) = ''NoneType''"
| "type_name (Scalar (PyBool b)) = ''bool''"
| "type_name (Scalar (PyInt i)) = ''int''"
| "type_name (Scalar (PyStr s)) = ''str''"
| "type_name (PyList vs) = ''list''"
| "type_name (PyDict d) = ''dict''"

definition str_type :: "yaml \<Rightarrow> string" where
  "str_type v = ''<class '' @ [CHR 0x27] @ type_name v @ [CHR 0x27] @ ''>''"

section \<open>Base identifier of a task reference\<close>

text \<open>
  \<^verbatim>\<open>str(k).split("-")[0]\<close> (lines 66 and 88). The split of a string is never empty, so
  the index \<open>0\<close> is always in range. \<open>base_of\<close> is the base identifier when \<^verbatim>\<open>str\<close>
  returns, and \<open>base_call\<close> is the expression with the exception of \<^verbatim>\<open>str\<close>.
\<close>

definition first_field :: "string \<Rightarrow> string" where
  "first_field s = (case py_split CHR ''-'' s of [] \<Rightarrow> [] | f # fs \<Rightarrow> f)"

definition base_of :: "yaml \<Rightarrow> string" where
  "base_of t = first_field (py_str t)"

definition base_call :: "yaml \<Rightarrow> error + string" where
  "base_call t = (if str_raises t then Inl (ValueError digits_limit_text) else Inr (base_of t))"

section \<open>File-name stem\<close>

text \<open>
  \<^verbatim>\<open>pathlib.Path(rel).stem\<close> on a POSIX system (line 59). The name of a path is its last
  segment that is neither empty nor a single dot, or the empty string when there is none.
  The stem is the name up to its last dot, when that dot is neither the first nor the
  last character of the name (\<^verbatim>\<open>0 < i < len(name) - 1\<close> in \<^verbatim>\<open>pathlib\<close>), and the
  whole name otherwise.
\<close>

definition path_name :: "string \<Rightarrow> string" where
  "path_name rel =
     (case filter (\<lambda>x. x \<noteq> [] \<and> x \<noteq> ''.'') (py_split CHR ''/'' rel) of
        [] \<Rightarrow> []
      | p # ps \<Rightarrow> last (p # ps))"

definition path_stem :: "string \<Rightarrow> string" where
  "path_stem rel =
     (let name = path_name rel; i = rfind CHR ''.'' name
      in if 0 < i \<and> i < int (length name) - 1 then take (nat i) name else name)"

text \<open>
  \<^verbatim>\<open>ROOT / "a" / "b"\<close> as a string, for the absolute \<^verbatim>\<open>ROOT\<close> that \<^verbatim>\<open>resolve()\<close> gives:
  only the file-system root ends with a slash.
\<close>

definition joinpath :: "string \<Rightarrow> string \<Rightarrow> string" where
  "joinpath a b = (if a \<noteq> [] \<and> last a = CHR ''/'' then a @ b else a @ ''/'' @ b)"

section \<open>The world outside the script\<close>

text \<open>
  \<open>root\<close> is \<^verbatim>\<open>ROOT\<close> (line 22). \<open>path_exists\<close> answers \<^verbatim>\<open>p.exists()\<close>.
  \<open>read_yaml\<close> is the outcome of opening a path and running \<^verbatim>\<open>yaml.safe_load\<close> on it
  (lines 27 and 28): the text of the exception raised, or the decoded value.
  \<open>sort_error\<close> is the text of the \<^verbatim>\<open>TypeError\<close> that \<^verbatim>\<open>sorted\<close> raises on a list it
  cannot order; the text names the types of the first pair whose comparison fails, which
  depends on the order of comparisons inside the sort.
\<close>

record world =
  root :: string
  path_exists :: "string \<Rightarrow> bool"
  read_yaml :: "string \<Rightarrow> string + yaml"
  sort_error :: "scalar list \<Rightarrow> string"

section \<open>Config loader\<close>

text \<open>\<^verbatim>\<open>load_yaml\<close> (lines 25 to 35).\<close>

definition load_yaml :: "world \<Rightarrow> string \<Rightarrow> error + dict" where
  "load_yaml w path =
     (case read_yaml w path of
        Inl e \<Rightarrow> Inl (RuntimeError (''Failed to parse YAML: '' @ path @ '': '' @ e))
      | Inr data \<Rightarrow>
          if data = Scalar PyNone then Inr []
          else (case data of
                  PyDict d \<Rightarrow> Inr d
                | _ \<Rightarrow> Inl (RuntimeError
                    (''Expected mapping at top-level in '' @ path @ '', got '' @ str_type data))))"

section \<open>Cross-reference validation\<close>

text \<open>\<^verbatim>\<open>cfg.get(k, default)\<close> for a string key \<open>k\<close>: only a string key equals it.\<close>

definition dict_get :: "dict \<Rightarrow> string \<Rightarrow> yaml \<Rightarrow> yaml" where
  "dict_get d k dflt = (case map_of d (PyStr k) of None \<Rightarrow> dflt | Some v \<Rightarrow> v)"

fun is_str :: "yaml \<Rightarrow> bool" where
  "is_str (Scalar (PyStr s)) = True"
| "is_str v = False"

text \<open>The Known Task Set (lines 52 to 59).\<close>

definition task_names :: "dict \<Rightarrow> error + string set" where
  "task_names assembly_cfg =
     (case dict_get assembly_cfg ''import'' (PyList []) of
        PyList imports \<Rightarrow>
          if list_all is_str imports
          then Inr (set (map (\<lambda>rel. path_stem (py_str rel)) imports))
          else Inl (RuntimeError ''configs/tasks/task_assembly.yaml must have a list field: import'')
      | _ \<Rightarrow> Inl (RuntimeError ''configs/tasks/task_assembly.yaml must have a list field: import''))"

text \<open>
  \<^verbatim>\<open>sorted(ks)\<close> on a list of keys. Python orders strings by code point and integers
  (\<^verbatim>\<open>bool\<close> is a subtype of \<^verbatim>\<open>int\<close>) by value; \<^verbatim>\<open>None\<close> and values of the two
  different kinds cannot be compared. The sort is stable. It makes no comparison on a
  list shorter than two, and on a longer list every element is compared with another
  one, so the sort raises \<^verbatim>\<open>TypeError\<close> unless all are strings or all are integers.
\<close>

fun is_pystr :: "scalar \<Rightarrow> bool" where
  "is_pystr (PyStr s) = True"
| "is_pystr k = False"

fun is_int :: "scalar \<Rightarrow> bool" where
  "is_int (PyBool b) = True"
| "is_int (PyInt i) = True"
| "is_int k = False"

fun str_key :: "scalar \<Rightarrow> string" where
  "str_key (PyStr s) = s"
| "str_key k = []"

fun int_key :: "scalar \<Rightarrow> int" where
  "int_key (PyBool b) = (if b then 1 else 0)"
| "int_key (PyInt i) = i"
| "int_key k = 0"

definition py_sorted :: "(scalar list \<Rightarrow> string) \<Rightarrow> scalar list \<Rightarrow> error + scalar list" where
  "py_sorted sort_err ks =
     (if length ks \<le> 1 then Inr ks
      else if list_all is_pystr ks then Inr (sort_key str_key ks)
      else if list_all is_int ks then Inr (sort_key int_key ks)
      else Inl (TypeError (sort_err ks)))"

text \<open>
  The comprehension of line 66: the keys, in their order, whose base identifier is not a
  known task. It ends with the \<^verbatim>\<open>ValueError\<close> of the first key that \<^verbatim>\<open>str\<close> refuses.
\<close>

fun unknown_keys :: "string set \<Rightarrow> scalar list \<Rightarrow> error + scalar list" where
  "unknown_keys tn [] = Inr []"
| "unknown_keys tn (k # ks) =
     (case base_call (Scalar k) of
        Inl e \<Rightarrow> Inl e
      | Inr base \<Rightarrow>
          (case unknown_keys tn ks of
             Inl e \<Rightarrow> Inl e
           | Inr rest \<Rightarrow> Inr (if base \<notin> tn then k # rest else rest)))"

text \<open>
  The start mapping (lines 62 to 71). Line 70 calls \<^verbatim>\<open>str\<close> on keys for which line 66 has
  called it already, so it cannot raise.
\<close>

definition check_start :: "(scalar list \<Rightarrow> string) \<Rightarrow> string set \<Rightarrow> dict \<Rightarrow> error + unit" where
  "check_start sort_err tn start_cfg =
     (case dict_get start_cfg ''start'' (PyDict []) of
        PyDict start \<Rightarrow>
          if start = []
          then Inl (RuntimeError ''configs/start_task_lite.yaml must have non-empty mapping field: start'')
          else (case unknown_keys tn (map fst start) of
                  Inl e \<Rightarrow> Inl e
                | Inr unknown \<Rightarrow>
                   (case py_sorted sort_err unknown of
                      Inl e \<Rightarrow> Inl e
                    | Inr unknown_in_start \<Rightarrow>
                        if unknown_in_start \<noteq> []
                        then Inl (RuntimeError
                          (''start_task_lite.yaml references tasks not present in task_assembly imports: ''
                           @ py_join '', '' (map str_scalar unknown_in_start)))
                        else Inr ()))
      | _ \<Rightarrow> Inl (RuntimeError ''configs/start_task_lite.yaml must have non-empty mapping field: start''))"

text \<open>The task references of one assignment (lines 80 to 86).\<close>

definition assignment_tasks :: "yaml \<Rightarrow> error + yaml list" where
  "assignment_tasks a =
     (case a of
        PyDict d \<Rightarrow>
          (let tasks = dict_get d ''task'' (PyList []);
               tasks = (if is_str tasks then PyList [tasks] else tasks)
           in case tasks of
                PyList ts \<Rightarrow> Inr ts
              | _ \<Rightarrow> Inl (RuntimeError ''assignment.task must be a string or list''))
      | _ \<Rightarrow> Inl (RuntimeError ''Each assignment must be a mapping''))"

text \<open>
  The inner loop (lines 87 to 90), which ends with the \<^verbatim>\<open>ValueError\<close> of the first
  reference that \<^verbatim>\<open>str\<close> refuses, and the outer loop (lines 79 to 90).
\<close>

fun collect_unknown :: "string set \<Rightarrow> yaml list \<Rightarrow> yaml list \<Rightarrow> error + yaml list" where
  "collect_unknown tn unknown_in_assign [] = Inr unknown_in_assign"
| "collect_unknown tn unknown_in_assign (t # ts) =
     (case base_call t of
        Inl e \<Rightarrow> Inl e
      | Inr base \<Rightarrow>
          collect_unknown tn
            (if base \<notin> tn then unknown_in_assign @ [t] else unknown_in_assign) ts)"

fun scan_assignments :: "string set \<Rightarrow> yaml list \<Rightarrow> yaml list \<Rightarrow> error + yaml list" where
  "scan_assignments tn unknown_in_assign [] = Inr unknown_in_assign"
| "scan_assignments tn unknown_in_assign (a # as) =
     (case assignment_tasks a of
        Inl e \<Rightarrow> Inl e
      | Inr tasks \<Rightarrow>
          (case collect_unknown tn unknown_in_assign tasks of
             Inl e \<Rightarrow> Inl e
           | Inr unknown_in_assign \<Rightarrow> scan_assignments tn unknown_in_assign as))"

text \<open>
  The assignment list (lines 74 to 96). Line 95 calls \<^verbatim>\<open>str\<close> on references for which
  line 88 has called it already, so it cannot raise.
\<close>

definition check_assignments :: "string set \<Rightarrow> dict \<Rightarrow> error + unit" where
  "check_assignments tn assign_cfg =
     (case dict_get assign_cfg ''assignments'' (Scalar PyNone) of
        PyList assignments \<Rightarrow>
          if assignments = []
          then Inl (RuntimeError
            ''configs/assignments/lite.yaml must have a non-empty list field: assignments'')
          else (case scan_assignments tn [] assignments of
                  Inl e \<Rightarrow> Inl e
                | Inr unknown_in_assign \<Rightarrow>
                    if unknown_in_assign \<noteq> []
                    then Inl (RuntimeError
                      (''assignments/lite.yaml references tasks not present in task_assembly imports: ''
                       @ py_join '', '' (map py_str unknown_in_assign)))
                    else Inr ())
      | _ \<Rightarrow> Inl (RuntimeError
            ''configs/assignments/lite.yaml must have a non-empty list field: assignments''))"

text \<open>Lines 51 to 96, on the three loaded documents.\<close>

definition validate :: "(scalar list \<Rightarrow> string) \<Rightarrow> dict \<Rightarrow> dict \<Rightarrow> dict \<Rightarrow> error + unit" where
  "validate sort_err start_cfg assign_cfg assembly_cfg =
     (case task_names assembly_cfg of
        Inl e \<Rightarrow> Inl e
      | Inr tn \<Rightarrow>
          (case check_start sort_err tn start_cfg of
             Inl e \<Rightarrow> Inl e
           | Inr u \<Rightarrow> check_assignments tn assign_cfg))"

section \<open>Entry point\<close>

definition start_lite :: "world \<Rightarrow> string" where
  "start_lite w = joinpath (joinpath (root w) ''configs'') ''start_task_lite.yaml''"

definition assign_lite :: "world \<Rightarrow> string" where
  "assign_lite w = joinpath (joinpath (joinpath (root w) ''configs'') ''assignments'') ''lite.yaml''"

definition task_assembly :: "world \<Rightarrow> string" where
  "task_assembly w = joinpath (joinpath (joinpath (root w) ''configs'') ''tasks'') ''task_assembly.yaml''"

text \<open>
  \<^verbatim>\<open>main\<close> (lines 38 to 99): an exception, or the text printed on standard output
  together with the returned status.
\<close>

definition main :: "world \<Rightarrow> error + string \<times> int" where
  "main w =
     (case find (\<lambda>p. \<not> path_exists w p) [start_lite w, assign_lite w, task_assembly w] of
        Some p \<Rightarrow> Inl (RuntimeError (''Missing required file: '' @ p))
      | None \<Rightarrow>
         (case load_yaml w (start_lite w) of
            Inl e \<Rightarrow> Inl e
          | Inr start_cfg \<Rightarrow>
             (case load_yaml w (assign_lite w) of
                Inl e \<Rightarrow> Inl e
              | Inr assign_cfg \<Rightarrow>
                 (case load_yaml w (task_assembly w) of
                    Inl e \<Rightarrow> Inl e
                  | Inr assembly_cfg \<Rightarrow>
                     (case validate (sort_error w) start_cfg assign_cfg assembly_cfg of
                        Inl e \<Rightarrow> Inl e
                      | Inr u \<Rightarrow> Inr (''OK: lite configs look valid'' @ [CHR 0x0A], 0))))))"

text \<open>
  The \<^verbatim>\<open>__main__\<close> block (lines 102 to 107): the exit status and what was written to
  the two streams. \<^verbatim>\<open>print\<close> ends its text with a line feed.
\<close>

record outcome =
  exit_status :: int
  stdout :: string
  stderr :: string

definition run :: "world \<Rightarrow> outcome" where
  "run w =
     (case main w of
        Inr (out, status) \<Rightarrow> \<lparr>exit_status = status, stdout = out, stderr = []\<rparr>
      | Inl e \<Rightarrow> \<lparr>exit_status = 1, stdout = [], stderr = ''ERROR: '' @ exc_str e @ [CHR 0x0A]\<rparr>)"

section \<open>Notions used in the statements\<close>

text \<open>All three files exist and load as the three given mappings.\<close>

definition loaded :: "world \<Rightarrow> dict \<Rightarrow> dict \<Rightarrow> dict \<Rightarrow> bool" where
  "loaded w start_cfg assign_cfg assembly_cfg =
     (path_exists w (start_lite w) \<and> path_exists w (assign_lite w) \<and>
      path_exists w (task_assembly w) \<and>
      load_yaml w (start_lite w) = Inr start_cfg \<and>
      load_yaml w (assign_lite w) = Inr assign_cfg \<and>
      load_yaml w (task_assembly w) = Inr assembly_cfg)"

fun is_mapping :: "yaml \<Rightarrow> bool" where
  "is_mapping (PyDict d) = True"
| "is_mapping v = False"

fun is_list :: "yaml \<Rightarrow> bool" where
  "is_list (PyList vs) = True"
| "is_list v = False"

text \<open>A value is a list of strings.\<close>

fun str_list :: "yaml \<Rightarrow> bool" where
  "str_list (PyList vs) = list_all is_str vs"
| "str_list v = False"

text \<open>
  The task references of an assignment as the specification words them: a single string
  is a one-element sequence, a sequence is used as it is, and an element without the
  field has none. The element is well typed when it is a mapping whose \<^verbatim>\<open>task\<close> field,
  if present, is a string or a list.
\<close>

definition spec_refs :: "yaml \<Rightarrow> yaml list" where
  "spec_refs a =
     (case a of
        PyDict d \<Rightarrow>
          (case map_of d (PyStr ''task'') of
             None \<Rightarrow> []
           | Some v \<Rightarrow>
               if is_str v then [v] else (case v of PyList ts \<Rightarrow> ts | _ \<Rightarrow> []))
      | _ \<Rightarrow> [])"

definition well_typed :: "yaml \<Rightarrow> bool" where
  "well_typed a =
     (case a of
        PyDict d \<Rightarrow>
          (case map_of d (PyStr ''task'') of
             None \<Rightarrow> True
           | Some v \<Rightarrow> is_str v \<or> is_list v)
      | _ \<Rightarrow> False)"

text \<open>A text that is one line: it ends with its only line feed.\<close>

definition single_line :: "string \<Rightarrow> bool" where
  "single_line s = (s \<noteq> [] \<and> last s = CHR 0x0A \<and> CHR 0x0A \<notin> set (butlast s))"

section \<open>Example inputs\<close>

text \<open>
  The text of the \<^verbatim>\<open>TypeError\<close> of \<^verbatim>\<open>sorted\<close> as CPython 3.11 words it on fewer than 64
  keys. The text names the types of the two keys whose comparison fails first, the left
  operand of \<^verbatim>\<open><\<close> first. The sort scans the leading run, comparing every key with the
  one before it, and then inserts each later key into the sorted keys before it, comparing
  it with the middle one first. So with \<open>j\<close> the index of the first key of another kind
  than those before it, the pair is key \<open>j\<close> and key \<open>j - 1\<close> when the keys before \<open>j\<close>
  form one run, and key \<open>j\<close> and the key at index \<open>j div 2\<close> of the sorted keys before
  \<open>j\<close> otherwise.
\<close>

definition lt_error_text :: "scalar \<Rightarrow> scalar \<Rightarrow> string" where
  "lt_error_text a b =
     [CHR 0x27] @ ''<'' @ [CHR 0x27] @ '' not supported between instances of ''
     @ [CHR 0x27] @ type_name (Scalar a) @ [CHR 0x27] @ '' and ''
     @ [CHR 0x27] @ type_name (Scalar b) @ [CHR 0x27]"

definition comparable :: "scalar \<Rightarrow> scalar \<Rightarrow> bool" where
  "comparable a b = ((is_pystr a \<and> is_pystr b) \<or> (is_int a \<and> is_int b))"

definition key_less :: "scalar \<Rightarrow> scalar \<Rightarrow> bool" where
  "key_less a b = (if is_pystr a then str_key a < str_key b else int_key a < int_key b)"

fun run_rest :: "bool \<Rightarrow> scalar \<Rightarrow> scalar list \<Rightarrow> nat" where
  "run_rest descending prev [] = 0"
| "run_rest descending prev (k # ks) =
     (if key_less k prev = descending then Suc (run_rest descending k ks) else 0)"

fun run_length :: "scalar list \<Rightarrow> nat" where
  "run_length (k0 # k1 # ks) = 2 + run_rest (key_less k1 k0) k1 ks"
| "run_length ks = length ks"

definition cpython_sort_error :: "scalar list \<Rightarrow> string" where
  "cpython_sort_error ks =
     (case ks of
        [] \<Rightarrow> []
      | k0 # rest \<Rightarrow>
          (let j = Suc (length (takeWhile (\<lambda>k. comparable k k0) rest));
               prefix = take j ks
           in if length ks \<le> j then []
              else if run_length prefix = j then lt_error_text (ks ! j) (ks ! (j - 1))
              else lt_error_text (ks ! j)
                     ((if is_pystr k0 then sort_key str_key prefix
                       else sort_key int_key prefix) ! (j div 2))))"

text \<open>
  A checkout at \<^verbatim>\<open>/repo\<close> that holds the three files with the given decoded contents
  and nothing else.
\<close>

definition example_world :: "yaml \<Rightarrow> yaml \<Rightarrow> yaml \<Rightarrow> world" where
  "example_world start_doc assign_doc assembly_doc =
     \<lparr>root = ''/repo'',
      path_exists = (\<lambda>p. p = ''/repo/configs/start_task_lite.yaml'' \<or>
                          p = ''/repo/configs/assignments/lite.yaml'' \<or>
                          p = ''/repo/configs/tasks/task_assembly.yaml''),
      read_yaml = (\<lambda>p.
        if p = ''/repo/configs/start_task_lite.yaml'' then Inr start_doc
        else if p = ''/repo/configs/assignments/lite.yaml'' then Inr assign_doc
        else if p = ''/repo/configs/tasks/task_assembly.yaml'' then Inr assembly_doc
        else Inl ''[Errno 2] No such file or directory''),
      sort_error = cpython_sort_error\<rparr>"

text \<open>A string as a decoded value, and the mapping that a decoded document is.\<close>

definition str :: "string \<Rightarrow> yaml" where
  "str s = Scalar (PyStr s)"

fun the_dict :: "yaml \<Rightarrow> dict" where
  "the_dict (PyDict d) = d"
| "the_dict v = []"

text \<open>\<^verbatim>\<open>import: [webshop.yaml, tasks/os.yaml]\<close>\<close>

definition assembly_doc :: yaml where
  "assembly_doc = PyDict [(PyStr ''import'', PyList [str ''webshop.yaml'', str ''tasks/os.yaml''])]"

text \<open>\<^verbatim>\<open>start: {webshop-std: 1, os: 2}\<close>\<close>

definition start_doc :: yaml where
  "start_doc = PyDict [(PyStr ''start'',
     PyDict [(PyStr ''webshop-std'', Scalar (PyInt 1)), (PyStr ''os'', Scalar (PyInt 2))])]"

text \<open>\<^verbatim>\<open>assignments: [{agent: a, task: [webshop-std, os-dev]}]\<close>\<close>

definition assign_doc :: yaml where
  "assign_doc = PyDict [(PyStr ''assignments'',
     PyList [PyDict [(PyStr ''agent'', str ''a''),
                     (PyStr ''task'', PyList [str ''webshop-std'', str ''os-dev''])]])]"

text \<open>\<^verbatim>\<open>start: {zeta-1: 1, alpha: 2}\<close>, two keys that no import resolves.\<close>

definition start_doc_unknown :: yaml where
  "start_doc_unknown = PyDict [(PyStr ''start'',
     PyDict [(PyStr ''zeta-1'', Scalar (PyInt 1)), (PyStr ''alpha'', Scalar (PyInt 2))])]"

text \<open>\<^verbatim>\<open>start: {"a\nb": 1}\<close>, an unresolved key with a line feed in it.\<close>

definition start_doc_two_lines :: yaml where
  "start_doc_two_lines = PyDict [(PyStr ''start'',
     PyDict [(PyStr (''a'' @ [CHR 0x0A] @ ''b''), Scalar (PyInt 1))])]"

text \<open>\<^verbatim>\<open>start: {7: x, null: y}\<close>, two unresolved keys, neither a string.\<close>

definition start_doc_mixed :: yaml where
  "start_doc_mixed = PyDict [(PyStr ''start'',
     PyDict [(PyInt 7, str ''x''), (PyNone, str ''y'')])]"

text \<open>\<^verbatim>\<open>import: webshop.yaml\<close>, a single string where a list is expected.\<close>

definition assembly_doc_string :: yaml where
  "assembly_doc_string = PyDict [(PyStr ''import'', str ''webshop.yaml'')]"

text \<open>
  \<^verbatim>\<open>assignments: [{task: [webshop, ghosttask-v2]}, {task: nope}, {task: [ghosttask-v2]}]\<close>
\<close>

definition assign_doc_ghost :: yaml where
  "assign_doc_ghost = PyDict [(PyStr ''assignments'',
     PyList [PyDict [(PyStr ''task'', PyList [str ''webshop'', str ''ghosttask-v2''])],
             PyDict [(PyStr ''task'', str ''nope'')],
             PyDict [(PyStr ''task'', PyList [str ''ghosttask-v2''])]])]"

text \<open>\<^verbatim>\<open>assignments: [{task: ghost}, {task: 5}]\<close>\<close>

definition assign_doc_number :: yaml where
  "assign_doc_number = PyDict [(PyStr ''assignments'',
     PyList [PyDict [(PyStr ''task'', str ''ghost'')],
             PyDict [(PyStr ''task'', Scalar (PyInt 5))]])]"

text \<open>\<^verbatim>\<open>assignments: [{task: ghost}, webshop]\<close>\<close>

definition assign_doc_scalar :: yaml where
  "assign_doc_scalar = PyDict [(PyStr ''assignments'',
     PyList [PyDict [(PyStr ''task'', str ''ghost'')], str ''webshop''])]"

section \<open>Properties\<close>




subsection \<open>The entry point and the assignment loop\<close>

lemma main_loaded:
  "loaded w s a t \<Longrightarrow>
   main w = (case validate (sort_error w) s a t of
               Inl e \<Rightarrow> Inl e
             | Inr u \<Rightarrow> Inr (''OK: lite configs look valid'' @ [CHR 0x0A], 0))"
  by (simp add: loaded_def main_def)

lemma main_reaches_assignments:
  assumes "loaded w s a t" and "task_names t = Inr tn"
    and "check_start (sort_error w) tn s = Inr ()"
  shows "main w = (case check_assignments tn a of
                     Inl e \<Rightarrow> Inl e
                   | Inr u \<Rightarrow> Inr (''OK: lite configs look valid'' @ [CHR 0x0A], 0))"
  using assms by (simp add: main_loaded validate_def)

lemma is_str_never_raises: "is_str v \<Longrightarrow> \<not> str_raises v"
  by (cases v rule: is_str.cases) simp_all

lemma unknown_keys_filter:
  "list_all (\<lambda>k. \<not> str_raises (Scalar k)) ks \<Longrightarrow>
   unknown_keys tn ks = Inr (filter (\<lambda>k. base_of (Scalar k) \<notin> tn) ks)"
  by (induction ks) (simp_all add: base_call_def)

lemma collect_unknown_filter:
  "list_all (\<lambda>t. \<not> str_raises t) ts \<Longrightarrow>
   collect_unknown tn u ts = Inr (u @ filter (\<lambda>t. base_of t \<notin> tn) ts)"
  by (induction ts arbitrary: u) (simp_all add: base_call_def)

lemma is_str_iff: "is_str v \<longleftrightarrow> (\<exists>s. v = Scalar (PyStr s))"
  by (cases v rule: is_str.cases) simp_all

lemma is_list_iff: "is_list v \<longleftrightarrow> (\<exists>ts. v = PyList ts)"
  by (cases v) simp_all

lemma assignment_tasks_well_typed:
  "well_typed a \<Longrightarrow> assignment_tasks a = Inr (spec_refs a)"
  by (auto simp: well_typed_def assignment_tasks_def spec_refs_def dict_get_def is_str_iff is_list_iff
        split: option.splits yaml.splits)

lemma assignment_tasks_ill_typed:
  "\<not> well_typed a \<Longrightarrow>
   assignment_tasks a = Inl (RuntimeError
     (if is_mapping a then ''assignment.task must be a string or list''
      else ''Each assignment must be a mapping''))"
  by (auto simp: well_typed_def assignment_tasks_def dict_get_def is_str_iff is_list_iff
        split: option.splits yaml.splits)

lemma unknown_keys_refused:
  "\<not> list_all (\<lambda>k. \<not> str_raises (Scalar k)) ks \<Longrightarrow>
   unknown_keys tn ks = Inl (ValueError digits_limit_text)"
  by (induction ks) (auto simp: base_call_def unknown_keys_filter)

lemma collect_unknown_refused:
  "\<not> list_all (\<lambda>t. \<not> str_raises t) ts \<Longrightarrow>
   collect_unknown tn u ts = Inl (ValueError digits_limit_text)"
  by (induction ts arbitrary: u) (auto simp: base_call_def)

lemma scan_well_typed:
  "list_all well_typed as \<Longrightarrow>
   list_all (\<lambda>t. \<not> str_raises t) (concat (map spec_refs as)) \<Longrightarrow>
   scan_assignments tn u as = Inr (u @ filter (\<lambda>t. base_of t \<notin> tn) (concat (map spec_refs as)))"
  by (induction as arbitrary: u)
     (simp_all add: assignment_tasks_well_typed collect_unknown_filter)

lemma scan_first_ill_typed:
  "list_all well_typed pre \<Longrightarrow>
   list_all (\<lambda>t. \<not> str_raises t) (concat (map spec_refs pre)) \<Longrightarrow>
   \<not> well_typed bad \<Longrightarrow>
   scan_assignments tn u (pre @ bad # post) = Inl (RuntimeError
     (if is_mapping bad then ''assignment.task must be a string or list''
      else ''Each assignment must be a mapping''))"
  by (induction pre arbitrary: u)
     (simp_all add: assignment_tasks_well_typed assignment_tasks_ill_typed
        collect_unknown_filter)

lemma first_ill_typed:
  "\<not> list_all well_typed as \<Longrightarrow>
   \<exists>pre bad post. as = pre @ bad # post \<and> list_all well_typed pre \<and> \<not> well_typed bad"
proof (induction as)
  case Nil
  then show ?case by simp
next
  case (Cons a as)
  show ?case
  proof (cases "well_typed a")
    case False
    then have "a # as = [] @ a # as \<and> list_all well_typed [] \<and> \<not> well_typed a" by simp
    then show ?thesis by blast
  next
    case True
    with Cons obtain pre bad post
      where "as = pre @ bad # post" "list_all well_typed pre" "\<not> well_typed bad"
      by auto
    with True have "a # as = (a # pre) @ bad # post \<and> list_all well_typed (a # pre) \<and> \<not> well_typed bad"
      by simp
    then show ?thesis by blast
  qed
qed

subsection \<open>The limit on the digits of an integer\<close>

lemma dec_digits_not_Nil: "dec_digits n \<noteq> []"
  by (subst dec_digits.simps) simp

lemma dec_digits_long: "10 ^ k \<le> n \<Longrightarrow> k < length (dec_digits n)"
proof (induction k arbitrary: n)
  case 0
  from dec_digits_not_Nil [of n] show ?case by simp
next
  case (Suc k)
  then have "10 ^ k \<le> n div 10" by simp
  then have "k < length (dec_digits (n div 10))" by (rule Suc.IH)
  moreover have "\<not> n < 10"
  proof -
    from Suc.prems have "10 * 10 ^ k \<le> n" by simp
    moreover have "(1::nat) \<le> 10 ^ k" by simp
    ultimately show ?thesis by linarith
  qed
  ultimately show ?case by (subst dec_digits.simps) simp
qed

lemma dec_digits_short: "n < 10 ^ k \<Longrightarrow> 0 < k \<Longrightarrow> length (dec_digits n) \<le> k"
proof (induction k arbitrary: n)
  case 0
  then show ?case by simp
next
  case (Suc k)
  show ?case
  proof (cases "n < 10")
    case True
    then show ?thesis by (subst dec_digits.simps) simp
  next
    case False
    with Suc.prems have "0 < k" by (cases k) simp_all
    moreover from Suc.prems have "n div 10 < 10 ^ k"
      by (simp add: less_mult_imp_div_less mult.commute)
    ultimately have "length (dec_digits (n div 10)) \<le> k" by (simp add: Suc.IH)
    with False show ?thesis by (subst dec_digits.simps) simp
  qed
qed

lemma digits_more_than_iff:
  assumes "0 < k"
  shows "k < length (dec_digits (nat \<bar>i\<bar>)) \<longleftrightarrow> 10 ^ k \<le> \<bar>i\<bar>"
proof
  assume "k < length (dec_digits (nat \<bar>i\<bar>))"
  with dec_digits_short [of "nat \<bar>i\<bar>" k] assms have "\<not> nat \<bar>i\<bar> < 10 ^ k"
    by auto
  then have "(10::nat) ^ k \<le> nat \<bar>i\<bar>" by simp
  then have "int (10 ^ k) \<le> \<bar>i\<bar>" by linarith
  then show "10 ^ k \<le> \<bar>i\<bar>" by simp
next
  assume "10 ^ k \<le> \<bar>i\<bar>"
  then have "int (10 ^ k) \<le> \<bar>i\<bar>" by simp
  then have "(10::nat) ^ k \<le> nat \<bar>i\<bar>" by linarith
  then show "k < length (dec_digits (nat \<bar>i\<bar>))" by (rule dec_digits_long)
qed

lemma int_str_raises_iff: "int_str_raises i \<longleftrightarrow> 10 ^ max_str_digits \<le> \<bar>i\<bar>"
proof -
  have "0 < max_str_digits" by (simp add: max_str_digits_def)
  then show ?thesis unfolding int_str_raises_def by (rule digits_more_than_iff)
qed

subsection \<open>Sorting the unresolved keys\<close>

lemma sorted_map_const: "\<forall>k\<in>set ks. f k = (c::'a::linorder) \<Longrightarrow> sorted (map f ks)"
  by (induction ks) simp_all

lemma int_key_pystr: "is_pystr k \<Longrightarrow> int_key k = 0"
  by (cases k) simp_all

lemma str_key_num: "is_int k \<Longrightarrow> str_key k = []"
  by (cases k) simp_all

lemma py_sorted_orderable:
  assumes "length ks \<le> 1 \<or> list_all is_pystr ks \<or> list_all is_int ks"
  shows "\<exists>ks'. py_sorted se ks = Inr ks' \<and> mset ks' = mset ks \<and>
           sorted (map str_key ks') \<and> sorted (map int_key ks')"
proof (cases "length ks \<le> 1")
  case True
  then have "sorted (map str_key ks) \<and> sorted (map int_key ks)"
    by (cases ks) simp_all
  with True show ?thesis by (simp add: py_sorted_def)
next
  case long: False
  show ?thesis
  proof (cases "list_all is_pystr ks")
    case True
    then have "\<forall>k\<in>set (sort_key str_key ks). int_key k = 0"
      by (simp add: list_all_iff int_key_pystr)
    then have "sorted (map int_key (sort_key str_key ks))"
      by (rule sorted_map_const)
    with long True show ?thesis by (simp add: py_sorted_def)
  next
    case False
    with long assms have num: "list_all is_int ks" by simp
    then have "\<forall>k\<in>set (sort_key int_key ks). str_key k = []"
      by (simp add: list_all_iff str_key_num)
    then have "sorted (map str_key (sort_key int_key ks))"
      by (rule sorted_map_const)
    with long False num show ?thesis by (simp add: py_sorted_def)
  qed
qed

subsection \<open>The example inputs\<close>

lemma task_names_assembly_doc: "task_names (the_dict assembly_doc) = Inr {''webshop'', ''os''}"
  by (simp add: assembly_doc_def str_def task_names_def dict_get_def path_stem_def
        path_name_def rfind_def)

section \<open>The claims\<close>

subsection \<open>C1: unresolved keys of the start mapping\<close>

text \<open>
  C1 as the specification states it has the unresolved keys listed in the insertion order
  of the mapping. Line 66 sorts them: with the keys \<^verbatim>\<open>zeta-1\<close> and \<^verbatim>\<open>alpha\<close> inserted in
  this order and neither resolved, the message lists \<^verbatim>\<open>alpha, zeta-1\<close>.
\<close>

theorem start_unknown_keys_insertion_order_counterexample:
  "map fst [(PyStr ''zeta-1'', Scalar (PyInt 1)), (PyStr ''alpha'', Scalar (PyInt 2))] =
     [PyStr ''zeta-1'', PyStr ''alpha''] \<and>
   main (example_world start_doc_unknown assign_doc assembly_doc) \<noteq> Inl (RuntimeError
     ''start_task_lite.yaml references tasks not present in task_assembly imports: zeta-1, alpha'') \<and>
   main (example_world start_doc_unknown assign_doc assembly_doc) = Inl (RuntimeError
     ''start_task_lite.yaml references tasks not present in task_assembly imports: alpha, zeta-1'')"
  by code_simp

text \<open>
  C1, amended: when the three documents load, the \<^verbatim>\<open>import\<close> field is valid, no integer
  key of the start mapping has more than 4300 digits, the start mapping has at least one
  key whose base identifier is not in the Known Task Set, and these unresolved keys can
  be ordered (there is one of them, or all are strings, or all are integers or
  booleans), the checker fails with the error whose message names the start document and
  lists exactly those keys, comma-joined, in ascending order: strings by code point,
  integers and booleans by value.
\<close>

theorem start_unknown_keys_sorted:
  assumes "loaded w s a t" and "task_names t = Inr tn"
    and "map_of s (PyStr ''start'') = Some (PyDict start)"
    and "unknown = filter (\<lambda>k. base_of (Scalar k) \<notin> tn) (map fst start)"
    and "unknown \<noteq> []"
    and "length unknown \<le> 1 \<or> list_all is_pystr unknown \<or> list_all is_int unknown"
    and "list_all (\<lambda>k. \<not> str_raises (Scalar k)) (map fst start)"
  shows "\<exists>ks. mset ks = mset unknown \<and> sorted (map str_key ks) \<and> sorted (map int_key ks) \<and>
           main w = Inl (RuntimeError
             (''start_task_lite.yaml references tasks not present in task_assembly imports: ''
              @ py_join '', '' (map str_scalar ks)))"
proof -
  from py_sorted_orderable [OF assms(6), of "sort_error w"] obtain ks
    where ks: "py_sorted (sort_error w) unknown = Inr ks" "mset ks = mset unknown"
      "sorted (map str_key ks)" "sorted (map int_key ks)"
    by blast
  from ks(2) assms(5) have "ks \<noteq> []" by auto
  moreover from assms(4,5) have "start \<noteq> []" by auto
  moreover from assms(7) have "unknown_keys tn (map fst start) = Inr unknown"
    unfolding assms(4) by (rule unknown_keys_filter)
  ultimately have "check_start (sort_error w) tn s = Inl (RuntimeError
      (''start_task_lite.yaml references tasks not present in task_assembly imports: ''
       @ py_join '', '' (map str_scalar ks)))"
    using assms(3) ks(1) by (simp add: check_start_def dict_get_def)
  with assms(1,2) have "main w = Inl (RuntimeError
      (''start_task_lite.yaml references tasks not present in task_assembly imports: ''
       @ py_join '', '' (map str_scalar ks)))"
    by (simp add: main_loaded validate_def)
  with ks show ?thesis by blast
qed

theorem start_unknown_keys_sorted_witness:
  "loaded (example_world start_doc_unknown assign_doc assembly_doc)
     (the_dict start_doc_unknown) (the_dict assign_doc) (the_dict assembly_doc) \<and>
   task_names (the_dict assembly_doc) = Inr {''webshop'', ''os''} \<and>
   map_of (the_dict start_doc_unknown) (PyStr ''start'') =
     Some (PyDict [(PyStr ''zeta-1'', Scalar (PyInt 1)), (PyStr ''alpha'', Scalar (PyInt 2))]) \<and>
   list_all is_pystr [PyStr ''zeta-1'', PyStr ''alpha''] \<and>
   list_all (\<lambda>k. \<not> str_raises (Scalar k)) [PyStr ''zeta-1'', PyStr ''alpha''] \<and>
   (\<exists>ks. mset ks = mset [PyStr ''zeta-1'', PyStr ''alpha''] \<and>
      sorted (map str_key ks) \<and> sorted (map int_key ks) \<and>
      main (example_world start_doc_unknown assign_doc assembly_doc) = Inl (RuntimeError
        (''start_task_lite.yaml references tasks not present in task_assembly imports: ''
         @ py_join '', '' (map str_scalar ks))))"
proof -
  have h1: "loaded (example_world start_doc_unknown assign_doc assembly_doc)
     (the_dict start_doc_unknown) (the_dict assign_doc) (the_dict assembly_doc)"
    by code_simp
  have h3: "map_of (the_dict start_doc_unknown) (PyStr ''start'') =
     Some (PyDict [(PyStr ''zeta-1'', Scalar (PyInt 1)), (PyStr ''alpha'', Scalar (PyInt 2))])"
    by (simp add: start_doc_unknown_def)
  have h4: "[PyStr ''zeta-1'', PyStr ''alpha''] =
     filter (\<lambda>k. base_of (Scalar k) \<notin> {''webshop'', ''os''})
       (map fst [(PyStr ''zeta-1'', Scalar (PyInt 1)), (PyStr ''alpha'', Scalar (PyInt 2))])"
    by (simp add: base_of_def first_field_def)
  have h5: "[PyStr ''zeta-1'', PyStr ''alpha''] \<noteq> []"
    by simp
  have h6: "length [PyStr ''zeta-1'', PyStr ''alpha''] \<le> 1 \<or>
            list_all is_pystr [PyStr ''zeta-1'', PyStr ''alpha''] \<or>
            list_all is_int [PyStr ''zeta-1'', PyStr ''alpha'']"
    by simp
  have h7: "list_all (\<lambda>k. \<not> str_raises (Scalar k))
     (map fst [(PyStr ''zeta-1'', Scalar (PyInt 1)), (PyStr ''alpha'', Scalar (PyInt 2))])"
    by simp
  from start_unknown_keys_sorted [OF h1 task_names_assembly_doc h3 h4 h5 h6 h7]
    h1 task_names_assembly_doc h3
  show ?thesis by simp
qed

subsection \<open>C2: the import field\<close>

text \<open>
  C2 as the specification states it has the checker fail with the error that names the
  \<^verbatim>\<open>import\<close> field when the field is absent. Line 52 reads the field with the default
  \<^verbatim>\<open>[]\<close>: on a registry document without the field the Known Task Set is empty, the
  run goes on, and the error is the one of the start mapping.
\<close>

theorem import_absent_counterexample:
  "map_of (the_dict (PyDict [])) (PyStr ''import'') = None \<and>
   task_names (the_dict (PyDict [])) = Inr {} \<and>
   main (example_world start_doc assign_doc (PyDict [])) \<noteq> Inl (RuntimeError
     ''configs/tasks/task_assembly.yaml must have a list field: import'') \<and>
   main (example_world start_doc assign_doc (PyDict [])) = Inl (RuntimeError
     ''start_task_lite.yaml references tasks not present in task_assembly imports: os, webshop-std'')"
  by code_simp

text \<open>
  C2, amended: when the three documents load and the \<^verbatim>\<open>import\<close> field of the
  task-registry document is present but is not a list of strings, the checker fails with
  the error that names the expected field; when the field is absent it is read as the
  empty list and the Known Task Set is empty.
\<close>

theorem import_field_list_of_strings:
  assumes "loaded w s a t"
  shows "(\<forall>v. map_of t (PyStr ''import'') = Some v \<and> \<not> str_list v \<longrightarrow>
            main w = Inl (RuntimeError
              ''configs/tasks/task_assembly.yaml must have a list field: import'')) \<and>
         (map_of t (PyStr ''import'') = None \<longrightarrow> task_names t = Inr {})"
proof (intro conjI allI impI)
  fix v assume "map_of t (PyStr ''import'') = Some v \<and> \<not> str_list v"
  then have "task_names t = Inl (RuntimeError
      ''configs/tasks/task_assembly.yaml must have a list field: import'')"
    by (cases v) (simp_all add: task_names_def dict_get_def)
  with assms show "main w = Inl (RuntimeError
      ''configs/tasks/task_assembly.yaml must have a list field: import'')"
    by (simp add: main_loaded validate_def)
next
  assume "map_of t (PyStr ''import'') = None"
  then show "task_names t = Inr {}"
    by (simp add: task_names_def dict_get_def)
qed

theorem import_field_list_of_strings_witness:
  "loaded (example_world start_doc assign_doc assembly_doc_string)
     (the_dict start_doc) (the_dict assign_doc) (the_dict assembly_doc_string) \<and>
   map_of (the_dict assembly_doc_string) (PyStr ''import'') = Some (str ''webshop.yaml'') \<and>
   \<not> str_list (str ''webshop.yaml'') \<and>
   main (example_world start_doc assign_doc assembly_doc_string) = Inl (RuntimeError
     ''configs/tasks/task_assembly.yaml must have a list field: import'')"
proof -
  have h1: "loaded (example_world start_doc assign_doc assembly_doc_string)
     (the_dict start_doc) (the_dict assign_doc) (the_dict assembly_doc_string)"
    by code_simp
  have h2: "map_of (the_dict assembly_doc_string) (PyStr ''import'') = Some (str ''webshop.yaml'') \<and>
     \<not> str_list (str ''webshop.yaml'')"
    by (simp add: assembly_doc_string_def str_def)
  from import_field_list_of_strings [OF h1] h1 h2 show ?thesis by blast
qed

subsection \<open>C3: unresolved references of the assignment list\<close>

text \<open>
  C3: when the run reaches the assignment list, every element of the list is a mapping
  whose \<^verbatim>\<open>task\<close> field is well typed and \<^verbatim>\<open>str\<close> converts every reference (none holds
  an integer of more than 4300 digits), the references whose base identifier is not in
  the Known Task Set are collected as they are written, in the order in which they are
  met across all elements and with their repetitions; if there is one, the checker fails
  with the error whose message names the assignment document and lists them
  comma-joined in that order.
\<close>

theorem assignment_violations_in_encounter_order:
  assumes "loaded w s a t" and "task_names t = Inr tn"
    and "check_start (sort_error w) tn s = Inr ()"
    and "map_of a (PyStr ''assignments'') = Some (PyList assignments)"
    and "list_all well_typed assignments"
    and "violations = filter (\<lambda>r. base_of r \<notin> tn) (concat (map spec_refs assignments))"
    and "violations \<noteq> []"
    and "list_all (\<lambda>r. \<not> str_raises r) (concat (map spec_refs assignments))"
  shows "main w = Inl (RuntimeError
           (''assignments/lite.yaml references tasks not present in task_assembly imports: ''
            @ py_join '', '' (map py_str violations)))"
proof -
  from assms(6,7) have "assignments \<noteq> []" by auto
  moreover from assms(5,8) have "scan_assignments tn [] assignments = Inr violations"
    by (simp add: scan_well_typed assms(6))
  ultimately have "check_assignments tn a = Inl (RuntimeError
           (''assignments/lite.yaml references tasks not present in task_assembly imports: ''
            @ py_join '', '' (map py_str violations)))"
    using assms(4,7) by (simp add: check_assignments_def dict_get_def)
  with main_reaches_assignments [OF assms(1-3)] show ?thesis by simp
qed

theorem assignment_violations_in_encounter_order_witness:
  "loaded (example_world start_doc assign_doc_ghost assembly_doc)
     (the_dict start_doc) (the_dict assign_doc_ghost) (the_dict assembly_doc) \<and>
   task_names (the_dict assembly_doc) = Inr {''webshop'', ''os''} \<and>
   check_start (sort_error (example_world start_doc assign_doc_ghost assembly_doc))
     {''webshop'', ''os''} (the_dict start_doc) = Inr () \<and>
   list_all well_typed
     [PyDict [(PyStr ''task'', PyList [str ''webshop'', str ''ghosttask-v2''])],
      PyDict [(PyStr ''task'', str ''nope'')],
      PyDict [(PyStr ''task'', PyList [str ''ghosttask-v2''])]] \<and>
   list_all (\<lambda>r. \<not> str_raises r)
     [str ''webshop'', str ''ghosttask-v2'', str ''nope'', str ''ghosttask-v2''] \<and>
   main (example_world start_doc assign_doc_ghost assembly_doc) = Inl (RuntimeError
     ''assignments/lite.yaml references tasks not present in task_assembly imports: ghosttask-v2, nope, ghosttask-v2'')"
proof -
  have h1: "loaded (example_world start_doc assign_doc_ghost assembly_doc)
     (the_dict start_doc) (the_dict assign_doc_ghost) (the_dict assembly_doc)"
    by code_simp
  have h3: "check_start (sort_error (example_world start_doc assign_doc_ghost assembly_doc))
     {''webshop'', ''os''} (the_dict start_doc) = Inr ()"
    by (simp add: start_doc_def check_start_def dict_get_def base_call_def base_of_def
          first_field_def py_sorted_def)
  have h4: "map_of (the_dict assign_doc_ghost) (PyStr ''assignments'') = Some (PyList
     [PyDict [(PyStr ''task'', PyList [str ''webshop'', str ''ghosttask-v2''])],
      PyDict [(PyStr ''task'', str ''nope'')],
      PyDict [(PyStr ''task'', PyList [str ''ghosttask-v2''])]])"
    by (simp add: assign_doc_ghost_def)
  have h5: "list_all well_typed
     [PyDict [(PyStr ''task'', PyList [str ''webshop'', str ''ghosttask-v2''])],
      PyDict [(PyStr ''task'', str ''nope'')],
      PyDict [(PyStr ''task'', PyList [str ''ghosttask-v2''])]]"
    by (simp add: well_typed_def str_def)
  have h6: "[str ''ghosttask-v2'', str ''nope'', str ''ghosttask-v2''] =
     filter (\<lambda>r. base_of r \<notin> {''webshop'', ''os''}) (concat (map spec_refs
       [PyDict [(PyStr ''task'', PyList [str ''webshop'', str ''ghosttask-v2''])],
        PyDict [(PyStr ''task'', str ''nope'')],
        PyDict [(PyStr ''task'', PyList [str ''ghosttask-v2''])]]))"
    by (simp add: spec_refs_def str_def base_of_def first_field_def)
  have h7: "[str ''ghosttask-v2'', str ''nope'', str ''ghosttask-v2''] \<noteq> []"
    by simp
  have refs: "concat (map spec_refs
       [PyDict [(PyStr ''task'', PyList [str ''webshop'', str ''ghosttask-v2''])],
        PyDict [(PyStr ''task'', str ''nope'')],
        PyDict [(PyStr ''task'', PyList [str ''ghosttask-v2''])]]) =
     [str ''webshop'', str ''ghosttask-v2'', str ''nope'', str ''ghosttask-v2'']"
    by (simp add: spec_refs_def str_def)
  have h8: "list_all (\<lambda>r. \<not> str_raises r)
     [str ''webshop'', str ''ghosttask-v2'', str ''nope'', str ''ghosttask-v2'']"
    by (simp add: str_def)
  from assignment_violations_in_encounter_order
         [OF h1 task_names_assembly_doc h3 h4 h5 h6 h7, unfolded refs, OF h8]
    h1 task_names_assembly_doc h3 h5 h8
  show ?thesis by (simp add: str_def)
qed

subsection \<open>C4: the base identifier\<close>



subsection \<open>C5: the result of the config loader\<close>

text \<open>
  C5 as the specification states it has the loader return an empty mapping exactly when
  the document decodes to the null value. A document that decodes to the empty mapping
  \<^verbatim>\<open>{}\<close> is not null, and the loader returns it as decoded, empty.
\<close>

theorem load_yaml_empty_only_if_null_counterexample:
  "read_yaml (example_world (PyDict []) assign_doc assembly_doc)
     ''/repo/configs/start_task_lite.yaml'' = Inr (PyDict []) \<and>
   load_yaml (example_world (PyDict []) assign_doc assembly_doc)
     ''/repo/configs/start_task_lite.yaml'' = Inr [] \<and>
   PyDict [] \<noteq> Scalar PyNone"
  by code_simp

text \<open>
  C5, amended: for a file whose content parses, the loader returns an empty mapping
  exactly when the document decodes to the null value or to an empty mapping, returns the
  decoded mapping when the top level is a mapping, and raises the error that reports the
  file path and the decoded type when the top level is present but is not a mapping.
\<close>

theorem load_yaml_result:
  assumes "read_yaml w path = Inr data"
  shows "(load_yaml w path = Inr [] \<longleftrightarrow> data = Scalar PyNone \<or> data = PyDict []) \<and>
         (\<forall>d. data = PyDict d \<longrightarrow> load_yaml w path = Inr d) \<and>
         (data \<noteq> Scalar PyNone \<and> \<not> is_mapping data \<longrightarrow>
            load_yaml w path = Inl (RuntimeError
              (''Expected mapping at top-level in '' @ path @ '', got '' @ str_type data)))"
  using assms by (cases data) (auto simp: load_yaml_def)

theorem load_yaml_result_witness:
  "read_yaml (example_world (PyList [str ''webshop'']) assign_doc assembly_doc)
     ''/repo/configs/start_task_lite.yaml'' = Inr (PyList [str ''webshop'']) \<and>
   PyList [str ''webshop''] \<noteq> Scalar PyNone \<and> \<not> is_mapping (PyList [str ''webshop'']) \<and>
   load_yaml (example_world (PyList [str ''webshop'']) assign_doc assembly_doc)
     ''/repo/configs/start_task_lite.yaml'' = Inl (RuntimeError
       (''Expected mapping at top-level in /repo/configs/start_task_lite.yaml, got <class ''
        @ [CHR 0x27] @ ''list'' @ [CHR 0x27] @ ''>''))"
proof -
  have h: "read_yaml (example_world (PyList [str ''webshop'']) assign_doc assembly_doc)
     ''/repo/configs/start_task_lite.yaml'' = Inr (PyList [str ''webshop''])"
    by (simp add: example_world_def)
  from load_yaml_result [OF h] h show ?thesis by (simp add: str_type_def)
qed

subsection \<open>C6: the type of the task field\<close>

text \<open>
  C6: for an assignment that is a mapping with a \<^verbatim>\<open>task\<close> field, the loop validates a
  single string as the sequence of that one reference and a sequence as it is: it goes
  on to the next element with the unresolved ones among these references added to the
  collected violations (for a sequence, when \<^verbatim>\<open>str\<close> converts all its references). A
  field of any other type makes the checker fail with the error
  \<^verbatim>\<open>assignment.task must be a string or list\<close> when the run reaches the element, that is
  when the elements before it are well typed and \<^verbatim>\<open>str\<close> converts their references.
\<close>

theorem task_field_string_or_list:
  assumes "map_of d (PyStr ''task'') = Some v"
  shows "(is_str v \<longrightarrow>
            assignment_tasks (PyDict d) = Inr [v] \<and>
            (\<forall>tn u rest. scan_assignments tn u (PyDict d # rest) =
               scan_assignments tn (if base_of v \<notin> tn then u @ [v] else u) rest)) \<and>
         (\<forall>ts. v = PyList ts \<longrightarrow>
            assignment_tasks (PyDict d) = Inr ts \<and>
            (list_all (\<lambda>r. \<not> str_raises r) ts \<longrightarrow>
               (\<forall>tn u rest. scan_assignments tn u (PyDict d # rest) =
                  scan_assignments tn (u @ filter (\<lambda>r. base_of r \<notin> tn) ts) rest))) \<and>
         (\<not> is_str v \<and> \<not> is_list v \<longrightarrow>
            (\<forall>w s a t tn pre post.
               loaded w s a t \<and> task_names t = Inr tn \<and>
               check_start (sort_error w) tn s = Inr () \<and>
               map_of a (PyStr ''assignments'') = Some (PyList (pre @ PyDict d # post)) \<and>
               list_all well_typed pre \<and>
               list_all (\<lambda>r. \<not> str_raises r) (concat (map spec_refs pre)) \<longrightarrow>
               main w = Inl (RuntimeError ''assignment.task must be a string or list'')))"
proof (intro conjI impI allI)
  assume "is_str v"
  with assms show one: "assignment_tasks (PyDict d) = Inr [v]"
    by (auto simp: assignment_tasks_def dict_get_def is_str_iff)
  fix tn u rest
  from \<open>is_str v\<close> have "\<not> str_raises v" by (rule is_str_never_raises)
  with one show "scan_assignments tn u (PyDict d # rest) =
      scan_assignments tn (if base_of v \<notin> tn then u @ [v] else u) rest"
    by (simp add: base_call_def)
next
  fix ts assume "v = PyList ts"
  with assms show "assignment_tasks (PyDict d) = Inr ts"
    by (simp add: assignment_tasks_def dict_get_def)
next
  fix ts tn u rest
  assume "v = PyList ts" and "list_all (\<lambda>r. \<not> str_raises r) ts"
  with assms show "scan_assignments tn u (PyDict d # rest) =
      scan_assignments tn (u @ filter (\<lambda>r. base_of r \<notin> tn) ts) rest"
    by (simp add: assignment_tasks_def dict_get_def collect_unknown_filter)
next
  fix w s a t tn pre post
  assume other: "\<not> is_str v \<and> \<not> is_list v"
    and reach: "loaded w s a t \<and> task_names t = Inr tn \<and>
      check_start (sort_error w) tn s = Inr () \<and>
      map_of a (PyStr ''assignments'') = Some (PyList (pre @ PyDict d # post)) \<and>
      list_all well_typed pre \<and>
      list_all (\<lambda>r. \<not> str_raises r) (concat (map spec_refs pre))"
  from other assms have bad: "\<not> well_typed (PyDict d)"
    by (simp add: well_typed_def)
  from reach have "list_all well_typed pre"
    and "list_all (\<lambda>r. \<not> str_raises r) (concat (map spec_refs pre))"
    by simp_all
  from scan_first_ill_typed [OF this bad]
  have "scan_assignments tn [] (pre @ PyDict d # post) =
          Inl (RuntimeError ''assignment.task must be a string or list'')"
    by simp
  with reach have "check_assignments tn a =
          Inl (RuntimeError ''assignment.task must be a string or list'')"
    by (simp add: check_assignments_def dict_get_def)
  moreover from reach have "loaded w s a t" and "task_names t = Inr tn"
    and "check_start (sort_error w) tn s = Inr ()"
    by simp_all
  then have "main w = (case check_assignments tn a of
      Inl e \<Rightarrow> Inl e | Inr u \<Rightarrow> Inr (''OK: lite configs look valid'' @ [CHR 0x0A], 0))"
    by (rule main_reaches_assignments)
  ultimately show "main w = Inl (RuntimeError ''assignment.task must be a string or list'')"
    by simp
qed

theorem task_field_string_or_list_witness:
  "map_of [(PyStr ''task'', str ''nope'')] (PyStr ''task'') = Some (str ''nope'') \<and>
   is_str (str ''nope'') \<and>
   scan_assignments {''webshop'', ''os''} [str ''ghost''] [PyDict [(PyStr ''task'', str ''nope'')]] =
     Inr [str ''ghost'', str ''nope''] \<and>
   map_of [(PyStr ''task'', Scalar (PyInt 5))] (PyStr ''task'') = Some (Scalar (PyInt 5)) \<and>
   \<not> is_str (Scalar (PyInt 5)) \<and> \<not> is_list (Scalar (PyInt 5)) \<and>
   loaded (example_world start_doc assign_doc_number assembly_doc)
     (the_dict start_doc) (the_dict assign_doc_number) (the_dict assembly_doc) \<and>
   task_names (the_dict assembly_doc) = Inr {''webshop'', ''os''} \<and>
   check_start (sort_error (example_world start_doc assign_doc_number assembly_doc))
     {''webshop'', ''os''} (the_dict start_doc) = Inr () \<and>
   list_all well_typed [PyDict [(PyStr ''task'', str ''ghost'')]] \<and>
   list_all (\<lambda>r. \<not> str_raises r)
     (concat (map spec_refs [PyDict [(PyStr ''task'', str ''ghost'')]])) \<and>
   main (example_world start_doc assign_doc_number assembly_doc) =
     Inl (RuntimeError ''assignment.task must be a string or list'')"
proof -
  have s0: "map_of [(PyStr ''task'', str ''nope'')] (PyStr ''task'') = Some (str ''nope'')"
    by simp
  have s1: "is_str (str ''nope'')"
    by (simp add: str_def)
  from task_field_string_or_list [OF s0] s1
  have "scan_assignments {''webshop'', ''os''} [str ''ghost'']
          (PyDict [(PyStr ''task'', str ''nope'')] # []) =
        scan_assignments {''webshop'', ''os''}
          (if base_of (str ''nope'') \<notin> {''webshop'', ''os''}
           then [str ''ghost''] @ [str ''nope''] else [str ''ghost'']) []"
    by blast
  then have s2: "scan_assignments {''webshop'', ''os''} [str ''ghost'']
      [PyDict [(PyStr ''task'', str ''nope'')]] = Inr [str ''ghost'', str ''nope'']"
    by (simp add: base_of_def str_def first_field_def)
  have h0: "map_of [(PyStr ''task'', Scalar (PyInt 5))] (PyStr ''task'') = Some (Scalar (PyInt 5))"
    by simp
  have other: "\<not> is_str (Scalar (PyInt 5)) \<and> \<not> is_list (Scalar (PyInt 5))"
    by simp
  have h1: "loaded (example_world start_doc assign_doc_number assembly_doc)
     (the_dict start_doc) (the_dict assign_doc_number) (the_dict assembly_doc)"
    by code_simp
  have h3: "check_start (sort_error (example_world start_doc assign_doc_number assembly_doc))
     {''webshop'', ''os''} (the_dict start_doc) = Inr ()"
    by (simp add: start_doc_def check_start_def dict_get_def base_call_def base_of_def
          first_field_def py_sorted_def)
  have h4: "map_of (the_dict assign_doc_number) (PyStr ''assignments'') = Some (PyList
     ([PyDict [(PyStr ''task'', str ''ghost'')]] @
      PyDict [(PyStr ''task'', Scalar (PyInt 5))] # []))"
    by (simp add: assign_doc_number_def)
  have h5: "list_all well_typed [PyDict [(PyStr ''task'', str ''ghost'')]]"
    by (simp add: well_typed_def str_def)
  have h6: "list_all (\<lambda>r. \<not> str_raises r)
     (concat (map spec_refs [PyDict [(PyStr ''task'', str ''ghost'')]]))"
    by (simp add: spec_refs_def str_def)
  from task_field_string_or_list [OF h0] other h1 task_names_assembly_doc h3 h4 h5 h6
  have "main (example_world start_doc assign_doc_number assembly_doc) =
     Inl (RuntimeError ''assignment.task must be a string or list'')"
    by blast
  with s0 s1 s2 h0 other h1 task_names_assembly_doc h3 h5 h6 show ?thesis by blast
qed

subsection \<open>C7: exit status and output\<close>

text \<open>
  C7 as the specification states it has every failing run write a single line to standard
  error. The message is printed as it is: with the unresolved start key \<^verbatim>\<open>"a\nb"\<close> the
  text written to standard error has two lines.
\<close>

theorem error_output_two_lines_counterexample:
  "exit_status (run (example_world start_doc_two_lines assign_doc assembly_doc)) = 1 \<and>
   stderr (run (example_world start_doc_two_lines assign_doc assembly_doc)) =
     ''ERROR: start_task_lite.yaml references tasks not present in task_assembly imports: a''
     @ [CHR 0x0A] @ ''b'' @ [CHR 0x0A] \<and>
   \<not> single_line (stderr (run (example_world start_doc_two_lines assign_doc assembly_doc)))"
  by code_simp

text \<open>
  C7, amended: when all checks pass, the run exits with status 0, writes exactly the line
  \<^verbatim>\<open>OK: lite configs look valid\<close> to standard output and nothing to standard error.
  When a check fails, whatever the error, the run exits with status 1, writes nothing to
  standard output, and writes \<^verbatim>\<open>ERROR: \<close> followed by the message and a line feed to
  standard error; this is a single line when the message has no line feed in it.
\<close>

theorem run_status_and_streams:
  "(\<forall>r. main w = Inr r \<longrightarrow>
      run w = \<lparr>exit_status = 0, stdout = ''OK: lite configs look valid'' @ [CHR 0x0A],
               stderr = []\<rparr> \<and> single_line (stdout (run w))) \<and>
   (\<forall>e. main w = Inl e \<longrightarrow>
      run w = \<lparr>exit_status = 1, stdout = [],
               stderr = ''ERROR: '' @ exc_str e @ [CHR 0x0A]\<rparr> \<and>
      (CHR 0x0A \<notin> set (exc_str e) \<longrightarrow> single_line (stderr (run w))))"
proof (intro conjI allI impI)
  fix r assume r: "main w = Inr r"
  then have "r = (''OK: lite configs look valid'' @ [CHR 0x0A], 0)"
    by (auto simp: main_def split: option.splits sum.splits)
  with r show "run w = \<lparr>exit_status = 0, stdout = ''OK: lite configs look valid'' @ [CHR 0x0A],
               stderr = []\<rparr>"
    by (simp add: run_def)
  then show "single_line (stdout (run w))" by (simp add: single_line_def)
next
  fix e assume e: "main w = Inl e"
  then show "run w = \<lparr>exit_status = 1, stdout = [],
               stderr = ''ERROR: '' @ exc_str e @ [CHR 0x0A]\<rparr>"
    by (simp add: run_def)
  assume "CHR 0x0A \<notin> set (exc_str e)"
  with e show "single_line (stderr (run w))"
    by (simp add: run_def single_line_def butlast_append)
qed

theorem run_status_and_streams_witness:
  "main (example_world start_doc assign_doc assembly_doc) =
     Inr (''OK: lite configs look valid'' @ [CHR 0x0A], 0) \<and>
   run (example_world start_doc assign_doc assembly_doc) =
     \<lparr>exit_status = 0, stdout = ''OK: lite configs look valid'' @ [CHR 0x0A], stderr = []\<rparr> \<and>
   main (example_world start_doc assign_doc_scalar assembly_doc) =
     Inl (RuntimeError ''Each assignment must be a mapping'') \<and>
   CHR 0x0A \<notin> set (exc_str (RuntimeError ''Each assignment must be a mapping'')) \<and>
   run (example_world start_doc assign_doc_scalar assembly_doc) =
     \<lparr>exit_status = 1, stdout = [],
      stderr = ''ERROR: Each assignment must be a mapping'' @ [CHR 0x0A]\<rparr> \<and>
   single_line (stderr (run (example_world start_doc assign_doc_scalar assembly_doc)))"
proof -
  have ok: "main (example_world start_doc assign_doc assembly_doc) =
     Inr (''OK: lite configs look valid'' @ [CHR 0x0A], 0)"
    by code_simp
  have bad: "main (example_world start_doc assign_doc_scalar assembly_doc) =
     Inl (RuntimeError ''Each assignment must be a mapping'')"
    by code_simp
  have lf: "CHR 0x0A \<notin> set (exc_str (RuntimeError ''Each assignment must be a mapping''))"
    by simp
  from run_status_and_streams [of "example_world start_doc assign_doc assembly_doc"] ok
  have r1: "run (example_world start_doc assign_doc assembly_doc) =
     \<lparr>exit_status = 0, stdout = ''OK: lite configs look valid'' @ [CHR 0x0A], stderr = []\<rparr>"
    by blast
  from run_status_and_streams [of "example_world start_doc assign_doc_scalar assembly_doc"] bad lf
  have r2: "run (example_world start_doc assign_doc_scalar assembly_doc) =
     \<lparr>exit_status = 1, stdout = [],
      stderr = ''ERROR: '' @ exc_str (RuntimeError ''Each assignment must be a mapping'')
               @ [CHR 0x0A]\<rparr> \<and>
     single_line (stderr (run (example_world start_doc assign_doc_scalar assembly_doc)))"
    by blast
  from r2 have r3: "run (example_world start_doc assign_doc_scalar assembly_doc) =
     \<lparr>exit_status = 1, stdout = [],
      stderr = ''ERROR: Each assignment must be a mapping'' @ [CHR 0x0A]\<rparr>"
    by simp
  from r2 have r4:
    "single_line (stderr (run (example_world start_doc assign_doc_scalar assembly_doc)))"
    by (rule conjunct2)
  from ok bad lf r1 r3 r4 show ?thesis by blast
qed

subsection \<open>C8: an assignment without a task field\<close>

text \<open>
  C8: an assignment that is a mapping without a \<^verbatim>\<open>task\<close> field has the empty sequence of
  references: it raises no error and adds nothing to the collected violations.
\<close>

theorem missing_task_field_passes:
  assumes "map_of d (PyStr ''task'') = None"
  shows "assignment_tasks (PyDict d) = Inr [] \<and>
         scan_assignments tn u (PyDict d # rest) = scan_assignments tn u rest"
  using assms by (simp add: assignment_tasks_def dict_get_def)

theorem missing_task_field_passes_witness:
  "map_of [(PyStr ''agent'', str ''a'')] (PyStr ''task'') = None \<and>
   assignment_tasks (PyDict [(PyStr ''agent'', str ''a'')]) = Inr [] \<and>
   scan_assignments {''webshop'', ''os''} [str ''ghost''] [PyDict [(PyStr ''agent'', str ''a'')]] =
     Inr [str ''ghost'']"
proof -
  have h: "map_of [(PyStr ''agent'', str ''a'')] (PyStr ''task'') = None"
    by simp
  from missing_task_field_passes [OF h, of "{''webshop'', ''os''}" "[str ''ghost'']" "[]"] h
  show ?thesis by simp
qed

subsection \<open>C9: a malformed assignment discards the collected violations\<close>

text \<open>
  C9: when the run reaches an assignment list that has a malformed element (one that is
  not a mapping, or whose \<^verbatim>\<open>task\<close> field is neither a string nor a list), and \<^verbatim>\<open>str\<close>
  converts the references of the elements before the first malformed one (none holds an
  integer of more than 4300 digits), the checker fails with the structural error of that
  element, whatever unresolved references the elements before it hold: no error about
  unknown references is reported.
\<close>

theorem schema_error_discards_violations:
  assumes "loaded w s a t" and "task_names t = Inr tn"
    and "check_start (sort_error w) tn s = Inr ()"
    and "map_of a (PyStr ''assignments'') = Some (PyList assignments)"
    and "\<not> list_all well_typed assignments"
  shows "(\<exists>pre bad post. assignments = pre @ bad # post \<and> list_all well_typed pre \<and>
            \<not> well_typed bad) \<and>
         (\<forall>pre bad post. assignments = pre @ bad # post \<and> list_all well_typed pre \<and>
            \<not> well_typed bad \<and>
            list_all (\<lambda>r. \<not> str_raises r) (concat (map spec_refs pre)) \<longrightarrow>
            main w = Inl (RuntimeError
              (if is_mapping bad then ''assignment.task must be a string or list''
               else ''Each assignment must be a mapping'')))"
proof (intro conjI allI impI)
  from assms(5) show "\<exists>pre bad post. assignments = pre @ bad # post \<and>
      list_all well_typed pre \<and> \<not> well_typed bad"
    by (rule first_ill_typed)
next
  fix pre bad post
  assume split: "assignments = pre @ bad # post \<and> list_all well_typed pre \<and>
      \<not> well_typed bad \<and> list_all (\<lambda>r. \<not> str_raises r) (concat (map spec_refs pre))"
  then have "list_all well_typed pre"
    and "list_all (\<lambda>r. \<not> str_raises r) (concat (map spec_refs pre))"
    and "\<not> well_typed bad"
    by simp_all
  then have "scan_assignments tn [] (pre @ bad # post) = Inl (RuntimeError
      (if is_mapping bad then ''assignment.task must be a string or list''
       else ''Each assignment must be a mapping''))"
    by (rule scan_first_ill_typed)
  with split assms(4) have "check_assignments tn a = Inl (RuntimeError
      (if is_mapping bad then ''assignment.task must be a string or list''
       else ''Each assignment must be a mapping''))"
    by (simp add: check_assignments_def dict_get_def)
  with main_reaches_assignments [OF assms(1-3)]
  show "main w = Inl (RuntimeError
      (if is_mapping bad then ''assignment.task must be a string or list''
       else ''Each assignment must be a mapping''))"
    by simp
qed

theorem schema_error_discards_violations_witness:
  "loaded (example_world start_doc assign_doc_scalar assembly_doc)
     (the_dict start_doc) (the_dict assign_doc_scalar) (the_dict assembly_doc) \<and>
   task_names (the_dict assembly_doc) = Inr {''webshop'', ''os''} \<and>
   check_start (sort_error (example_world start_doc assign_doc_scalar assembly_doc))
     {''webshop'', ''os''} (the_dict start_doc) = Inr () \<and>
   well_typed (PyDict [(PyStr ''task'', str ''ghost'')]) \<and>
   spec_refs (PyDict [(PyStr ''task'', str ''ghost'')]) = [str ''ghost''] \<and>
   base_of (str ''ghost'') \<notin> {''webshop'', ''os''} \<and>
   \<not> well_typed (str ''webshop'') \<and>
   \<not> str_raises (str ''ghost'') \<and>
   main (example_world start_doc assign_doc_scalar assembly_doc) =
     Inl (RuntimeError ''Each assignment must be a mapping'')"
proof -
  have h1: "loaded (example_world start_doc assign_doc_scalar assembly_doc)
     (the_dict start_doc) (the_dict assign_doc_scalar) (the_dict assembly_doc)"
    by code_simp
  have h3: "check_start (sort_error (example_world start_doc assign_doc_scalar assembly_doc))
     {''webshop'', ''os''} (the_dict start_doc) = Inr ()"
    by (simp add: start_doc_def check_start_def dict_get_def base_call_def base_of_def
          first_field_def py_sorted_def)
  have h4: "map_of (the_dict assign_doc_scalar) (PyStr ''assignments'') = Some (PyList
     [PyDict [(PyStr ''task'', str ''ghost'')], str ''webshop''])"
    by (simp add: assign_doc_scalar_def)
  have first: "well_typed (PyDict [(PyStr ''task'', str ''ghost'')]) \<and>
     spec_refs (PyDict [(PyStr ''task'', str ''ghost'')]) = [str ''ghost''] \<and>
     base_of (str ''ghost'') \<notin> {''webshop'', ''os''}"
    by (simp add: well_typed_def spec_refs_def str_def base_of_def first_field_def)
  have second: "\<not> well_typed (str ''webshop'')"
    by (simp add: well_typed_def str_def)
  from first second
  have h5: "\<not> list_all well_typed [PyDict [(PyStr ''task'', str ''ghost'')], str ''webshop'']"
    by simp
  have conv: "list_all (\<lambda>r. \<not> str_raises r)
     (concat (map spec_refs [PyDict [(PyStr ''task'', str ''ghost'')]]))"
    by (simp add: spec_refs_def str_def)
  have split: "[PyDict [(PyStr ''task'', str ''ghost'')], str ''webshop''] =
     [PyDict [(PyStr ''task'', str ''ghost'')]] @ str ''webshop'' # [] \<and>
     list_all well_typed [PyDict [(PyStr ''task'', str ''ghost'')]] \<and>
     \<not> well_typed (str ''webshop'') \<and>
     list_all (\<lambda>r. \<not> str_raises r)
       (concat (map spec_refs [PyDict [(PyStr ''task'', str ''ghost'')]]))"
    using first second conv by simp
  from schema_error_discards_violations [OF h1 task_names_assembly_doc h3 h4 h5] split
  have "main (example_world start_doc assign_doc_scalar assembly_doc) = Inl (RuntimeError
      (if is_mapping (str ''webshop'') then ''assignment.task must be a string or list''
       else ''Each assignment must be a mapping''))"
    by blast
  then have "main (example_world start_doc assign_doc_scalar assembly_doc) =
     Inl (RuntimeError ''Each assignment must be a mapping'')"
    by (simp add: str_def)
  moreover have "\<not> str_raises (str ''ghost'')"
    by (simp add: str_def)
  ultimately show ?thesis
    using h1 task_names_assembly_doc h3 first second by blast
qed

subsection \<open>C10: keys and references that are not strings\<close>

text \<open>
  C10: the base identifier of a key that is not a string is taken from its string form,
  but the unresolved keys of the start mapping are then sorted, and keys of two kinds
  cannot be ordered. With the keys \<^verbatim>\<open>7\<close> and \<^verbatim>\<open>null\<close>, neither resolved, the sort raises
  \<^verbatim>\<open>TypeError\<close> and the run ends with its text instead of the list of unresolved keys.
\<close>

theorem mixed_start_keys_type_error:
  "base_of (Scalar (PyInt 7)) = ''7'' \<and> base_of (Scalar PyNone) = ''None'' \<and>
   main (example_world start_doc_mixed assign_doc assembly_doc) = Inl (TypeError
     ([CHR 0x27] @ ''<'' @ [CHR 0x27] @ '' not supported between instances of ''
      @ [CHR 0x27] @ ''NoneType'' @ [CHR 0x27] @ '' and '' @ [CHR 0x27] @ ''int'' @ [CHR 0x27]))"
  by code_simp

end
